theory Spec2Isabelle
  imports Complex_Main "HOL-Library.Multiset"
begin

section \<open>Values of learning.py\<close>

text \<open>
  The module \<^verbatim>\<open>learning.py\<close> is Python 2 code over numpy arrays. One-dimensional
  arrays are lists of reals, the history matrix \<^verbatim>\<open>x_mat\<close> is the list of its rows, and a
  target label \<^verbatim>\<open>yt\<close> is a number or \<^verbatim>\<open>None\<close>. An item of a data list is the tuple
  \<^verbatim>\<open>(author, (x_mat, fy, yt))\<close>. Floating point numbers are read as reals (no rounding,
  no NaN). Exceptions are values of type \<open>error\<close>.
\<close>

datatype error = TypeError | ValueError | IndexError | UnboundLocalError

type_synonym vec = "real list"

type_synonym mat = "real list list"

type_synonym 'a item = "'a \<times> (mat \<times> vec \<times> real option)"

definition label :: "'a item \<Rightarrow> real option" where
  "label it = (case it of (author, (x_mat, fy, yt)) \<Rightarrow> yt)"


text \<open>\<^verbatim>\<open>not yt\<close>: \<^verbatim>\<open>None\<close> and zero are falsy, every other number is truthy.\<close>

definition py_not :: "real option \<Rightarrow> bool" where
  "py_not yt = (case yt of None \<Rightarrow> True | Some v \<Rightarrow> v = 0)"

text \<open>
  \<^verbatim>\<open>yt < c\<close> and \<^verbatim>\<open>yt > c\<close> for a float \<^verbatim>\<open>c\<close>. Python 2 orders \<^verbatim>\<open>None\<close> before every
  number, so \<^verbatim>\<open>None < c\<close> is true and \<^verbatim>\<open>None > c\<close> is false.
\<close>

definition py_lt :: "real option \<Rightarrow> real \<Rightarrow> bool" where
  "py_lt yt c = (case yt of None \<Rightarrow> True | Some v \<Rightarrow> v < c)"

definition py_gt :: "real option \<Rightarrow> real \<Rightarrow> bool" where
  "py_gt yt c = (case yt of None \<Rightarrow> False | Some v \<Rightarrow> c < v)"

section \<open>The random source\<close>

text \<open>
  \<^verbatim>\<open>random.sample(population, n)\<close> returns the elements at \<open>n\<close> distinct positions of
  the population, in the order drawn; \<^verbatim>\<open>random.shuffle\<close> and \<^verbatim>\<open>np.random.shuffle\<close>
  rearrange a list by a permutation of its positions. The outcome of the random source
  is a parameter of the model: the list of positions drawn. \<open>sample_draw\<close> and
  \<open>shuffle_draw\<close> say which lists of positions the library can draw.
\<close>

definition random_sample :: "nat list \<Rightarrow> 'a list \<Rightarrow> nat \<Rightarrow> 'a list" where
  "random_sample draw population n = map (nth population) (take n draw)"

definition sample_draw :: "nat list \<Rightarrow> nat \<Rightarrow> nat \<Rightarrow> bool" where
  "sample_draw draw len n =
     (length draw = n \<and> distinct draw \<and> list_all (\<lambda>i. i < len) draw)"

definition shuffle :: "nat list \<Rightarrow> 'a list \<Rightarrow> 'a list" where
  "shuffle perm xs = map (nth xs) perm"

definition shuffle_draw :: "nat list \<Rightarrow> nat \<Rightarrow> bool" where
  "shuffle_draw perm len = sample_draw perm len len"

section \<open>Dataset preparation\<close>

text \<open>
  \<^verbatim>\<open>_rebalance_data(items)\<close>, lines 338 to 364. \<open>draw\<close> is the outcome of the one call of
  \<^verbatim>\<open>random.sample\<close>, \<open>perms i\<close> the outcome of the \<open>i\<close>-th of the five calls of
  \<^verbatim>\<open>np.random.shuffle\<close>. The two \<^verbatim>\<open>print\<close> statements are left out.
\<close>

definition rebalance_data ::
  "nat list \<Rightarrow> (nat \<Rightarrow> nat list) \<Rightarrow> 'a item list \<Rightarrow> 'a item list" where
  "rebalance_data draw perms items =
     (let neg_items = filter (\<lambda>(author, (x_mat, fy, yt)). py_lt yt (1/2)) items;
          pos_items = filter (\<lambda>(author, (x_mat, fy, yt)). py_gt yt (1/2)) items;
          (neg_items, pos_items) =
            (if length neg_items \<le> length pos_items
             then (neg_items, random_sample draw pos_items (length neg_items))
             else (random_sample draw neg_items (length pos_items), pos_items));
          new_items = neg_items @ pos_items
      in fold (\<lambda>i new_items. shuffle (perms i) new_items) [0..<5] new_items)"

text \<open>
  The outcomes the random source can produce in a call of \<open>rebalance_data\<close> on \<open>items\<close>:
  the sample takes as many positions of the larger class as the smaller class has items,
  and each of the five orders permutes a list of twice that length.
\<close>

definition rebalance_draws :: "nat list \<Rightarrow> (nat \<Rightarrow> nat list) \<Rightarrow> 'a item list \<Rightarrow> bool" where
  "rebalance_draws draw perms items =
     (let n = length (filter (\<lambda>it. py_lt (label it) (1/2)) items);
          p = length (filter (\<lambda>it. py_gt (label it) (1/2)) items)
      in sample_draw draw (max n p) (min n p) \<and>
         list_all (\<lambda>i. shuffle_draw (perms i) (2 * min n p)) [0..<5])"

text \<open>
  \<^verbatim>\<open>_expand_to_all(items)\<close>, lines 319 to 335. \<^verbatim>\<open>row[-1]\<close> raises IndexError on an
  empty row, \<^verbatim>\<open>row[:-2]\<close> drops the last two fields (and is empty for a shorter row),
  and \<^verbatim>\<open>yt + 1.0\<close> raises TypeError when \<^verbatim>\<open>yt\<close> is \<^verbatim>\<open>None\<close>. \<^verbatim>\<open>empty_mat\<close> is the empty
  array.
\<close>

definition expand_row :: "'a \<Rightarrow> vec \<Rightarrow> error + 'a item" where
  "expand_row author row =
     (if row = [] then Inl IndexError
      else Inr (author, ([], take (length row - 2) row, Some (last row))))"

fun expand_rows :: "'a \<Rightarrow> mat \<Rightarrow> error + 'a item list" where
  "expand_rows author [] = Inr []"
| "expand_rows author (row # x_mat) =
     (case expand_row author row of
        Inl e \<Rightarrow> Inl e
      | Inr new_item \<Rightarrow>
          (case expand_rows author x_mat of
             Inl e \<Rightarrow> Inl e
           | Inr new_items \<Rightarrow> Inr (new_item # new_items)))"

definition expand_entry :: "'a item \<Rightarrow> error + 'a item list" where
  "expand_entry it =
     (case it of (author, (x_mat, fy, yt)) \<Rightarrow>
        (case expand_rows author x_mat of
           Inl e \<Rightarrow> Inl e
         | Inr new_items \<Rightarrow>
             (case yt of
                None \<Rightarrow> Inl TypeError
              | Some v \<Rightarrow> Inr (new_items @ [(author, ([], fy, Some (1 * (v + 1) / 2)))]))))"

fun expand_to_all :: "'a item list \<Rightarrow> error + 'a item list" where
  "expand_to_all [] = Inr []"
| "expand_to_all (it # items) =
     (case expand_entry it of
        Inl e \<Rightarrow> Inl e
      | Inr new_items \<Rightarrow>
          (case expand_to_all items of
             Inl e \<Rightarrow> Inl e
           | Inr rest \<Rightarrow> Inr (new_items @ rest)))"

section \<open>The encoder and the predictor\<close>

text \<open>
  The classes \<^verbatim>\<open>LSTM\<close> and \<^verbatim>\<open>DNN\<close> are imported from \<^verbatim>\<open>lstm.py\<close> and \<^verbatim>\<open>nn_base.py\<close>;
  \<^verbatim>\<open>learning.py\<close> only calls their methods. They are parameters of the model: a
  record of the six methods called, over an encoder state \<open>'e\<close> and a predictor state
  \<open>'n\<close>. A method that mutates its object returns the new state.
\<close>

record ('e, 'n) modules =
  lstm_initialize :: "nat \<Rightarrow> nat \<Rightarrow> 'e"
  lstm_forward :: "'e \<Rightarrow> mat \<Rightarrow> vec \<times> 'e"
  lstm_backward_adadelta :: "'e \<Rightarrow> vec \<Rightarrow> real \<Rightarrow> 'e"
  nnet_initialize :: "int list \<Rightarrow> 'n"
  nnet_forward :: "'n \<Rightarrow> vec \<Rightarrow> vec \<times> 'n"
  nnet_backward_adadelta :: "'n \<Rightarrow> vec \<Rightarrow> vec \<times> 'n"

text \<open>The method calls made on the two objects, with their arguments, in order.\<close>

datatype event =
    LstmForward mat
  | LstmBackward vec real
  | NnetForward vec
  | NnetBackward vec

fun is_lstm_event :: "event \<Rightarrow> bool" where
  "is_lstm_event (LstmForward x_mat) = True"
| "is_lstm_event (LstmBackward back_el lf) = True"
| "is_lstm_event (NnetForward nnet_input) = False"
| "is_lstm_event (NnetBackward dy) = False"

fun is_lstm_forward :: "event \<Rightarrow> bool" where
  "is_lstm_forward (LstmForward x_mat) = True"
| "is_lstm_forward (LstmBackward back_el lf) = False"
| "is_lstm_forward (NnetForward nnet_input) = False"
| "is_lstm_forward (NnetBackward dy) = False"

text \<open>The learning-rate scales passed to the encoder's backward calls, in order.\<close>

fun backward_scales :: "event list \<Rightarrow> real list" where
  "backward_scales [] = []"
| "backward_scales (LstmBackward back_el lf # evs) = lf # backward_scales evs"
| "backward_scales (LstmForward x_mat # evs) = backward_scales evs"
| "backward_scales (NnetForward nnet_input # evs) = backward_scales evs"
| "backward_scales (NnetBackward dy # evs) = backward_scales evs"

text \<open>
  A module pair small enough to run by hand: each state counts the backward calls made
  on it, the encoder's output is twelve zeros and the predictor's output is the sum of
  its input.
\<close>

definition counting_modules :: "(nat, nat) modules" where
  "counting_modules =
     \<lparr>lstm_initialize = (\<lambda>Nf M. 0),
      lstm_forward = (\<lambda>lstm x_mat. (replicate 12 0, lstm)),
      lstm_backward_adadelta = (\<lambda>lstm back_el lf. Suc lstm),
      nnet_initialize = (\<lambda>widths. 0),
      nnet_forward = (\<lambda>nnet nnet_input. ([sum_list nnet_input], nnet)),
      nnet_backward_adadelta = (\<lambda>nnet dy. (replicate 13 0, Suc nnet))\<rparr>"

section \<open>numpy operations\<close>

text \<open>\<^verbatim>\<open>k > c\<close> for \<^verbatim>\<open>k\<close> an integer or \<^verbatim>\<open>None\<close>; in Python 2 \<^verbatim>\<open>None > c\<close> is false.\<close>

definition py_int_gt :: "int option \<Rightarrow> int \<Rightarrow> bool" where
  "py_int_gt k c = (case k of None \<Rightarrow> False | Some n \<Rightarrow> c < n)"

text \<open>
  \<^verbatim>\<open>a[:k]\<close>: the whole array for \<^verbatim>\<open>None\<close>, the first \<open>k\<close> entries for \<open>k \<ge> 0\<close>, all but
  the last \<open>-k\<close> entries for \<open>k < 0\<close>.
\<close>

definition py_slice_to :: "int option \<Rightarrow> 'a list \<Rightarrow> 'a list" where
  "py_slice_to k a =
     (case k of
        None \<Rightarrow> a
      | Some n \<Rightarrow> if 0 \<le> n then take (nat n) a else take (length a - nat (- n)) a)"

text \<open>
  \<^verbatim>\<open>fix_bit_val\<close> is a number or a sequence of numbers. \<^verbatim>\<open>np.array(fix_bit_val)\<close> (training,
  line 132) is then an array of dimension 0 or 1, and \<^verbatim>\<open>np.array([fix_bit_val])\<close>
  (evaluation, line 234) an array of dimension 1 or 2. \<^verbatim>\<open>np.concatenate\<close> with the
  one-dimensional \<^verbatim>\<open>fy\<close> raises ValueError unless the other array is one-dimensional too.
\<close>

datatype fix_bit = Scalar real | Sequence vec

datatype ndarray = Array0 real | Array1 vec | Array2 mat

fun np_array :: "fix_bit \<Rightarrow> ndarray" where
  "np_array (Scalar v) = Array0 v"
| "np_array (Sequence vs) = Array1 vs"

fun np_array_of_list :: "fix_bit \<Rightarrow> ndarray" where
  "np_array_of_list (Scalar v) = Array1 [v]"
| "np_array_of_list (Sequence vs) = Array2 [vs]"

fun np_concatenate :: "ndarray \<Rightarrow> vec \<Rightarrow> error + vec" where
  "np_concatenate (Array1 a) fy = Inr (a @ fy)"
| "np_concatenate (Array0 v) fy = Inl ValueError"
| "np_concatenate (Array2 m) fy = Inl ValueError"

text \<open>
  \<^verbatim>\<open>np.resize(a, (n,))\<close> repeats \<open>a\<close> cyclically up to length \<open>n\<close>, and gives zeros when \<open>a\<close>
  is empty. \<open>assign_prefix\<close> is the assignment \<^verbatim>\<open>back_el[:k] = bp_res[:k]\<close> on two arrays
  of the same length.
\<close>

definition np_resize :: "vec \<Rightarrow> nat \<Rightarrow> vec" where
  "np_resize a n =
     (if a = [] then replicate n 0 else map (\<lambda>i. a ! (i mod length a)) [0..<n])"

definition assign_prefix :: "int option \<Rightarrow> vec \<Rightarrow> vec \<Rightarrow> vec" where
  "assign_prefix k back_el bp_res =
     py_slice_to k bp_res @ drop (length (py_slice_to k bp_res)) back_el"

definition np_average2 :: "real \<Rightarrow> real \<Rightarrow> real" where
  "np_average2 a b = (a + b) / 2"

section \<open>The training loop\<close>

definition M :: nat where
  "M = 12"

definition Nf_quality :: nat where
  "Nf_quality = 14"

definition Nf_existence :: nat where
  "Nf_existence = 15"

text \<open>\<^verbatim>\<open>_learning_factor(weight_value)\<close>, lines 46 to 53.\<close>

definition learning_factor :: "real \<Rightarrow> real" where
  "learning_factor weight_value = weight_value * weight_value"

text \<open>The values one item's forward pass computes (lines 124 to 142, and 226 to 244).\<close>

record forward_values =
  fw_Y :: vec
  fw_nnet_input :: vec
  fw_y :: vec
  fw_yt :: real
  fw_e :: real

text \<open>
  Lines 124 to 142 of \<^verbatim>\<open>_train_nn_with_k_lstm_bits\<close>, for an item whose target \<open>yt\<close> is a
  non-zero number: the encoder runs when \<^verbatim>\<open>(k > 0 or k is None) and fix_bit_val is None\<close>,
  the target is normalised when \<^verbatim>\<open>(k > 0 or k is None) and quality\<close>. The result is the
  values computed, the two states and the calls made.
\<close>

definition train_forward ::
  "('e, 'n) modules \<Rightarrow> int option \<Rightarrow> bool \<Rightarrow> fix_bit option \<Rightarrow> 'e \<times> 'n \<Rightarrow>
   mat \<times> vec \<times> real \<Rightarrow> error + (forward_values \<times> ('e \<times> 'n) \<times> event list)" where
  "train_forward md k quality fix_bit_val st xfy =
     (case st of (lstm, nnet) \<Rightarrow>
      case xfy of (x_mat, fy, yt) \<Rightarrow>
        let (Y, lstm, ev) =
              (if (py_int_gt k 0 \<or> k = None) \<and> fix_bit_val = None
               then (case lstm_forward md lstm x_mat of
                       (Y, lstm) \<Rightarrow> (Y, lstm, [LstmForward x_mat]))
               else ([], lstm, []))
        in case (case fix_bit_val of
                   None \<Rightarrow> Inr (py_slice_to k Y @ fy)
                 | Some b \<Rightarrow> np_concatenate (np_array b) fy) of
             Inl err \<Rightarrow> Inl err
           | Inr nnet_input \<Rightarrow>
               (case nnet_forward md nnet nnet_input of
                  (y, nnet) \<Rightarrow>
                    let yt = (if (py_int_gt k 0 \<or> k = None) \<and> quality
                              then 1 * (yt + 1) / 2 else yt);
                        e = sum_list (map (\<lambda>v. (v - yt) ^ 2) y)
                    in Inr (\<lparr>fw_Y = Y, fw_nnet_input = nnet_input, fw_y = y,
                              fw_yt = yt, fw_e = e\<rparr>,
                            (lstm, nnet), ev @ [NnetForward nnet_input])))"

text \<open>
  The state of a run of \<^verbatim>\<open>_train_nn_with_k_lstm_bits\<close>: the two objects, the error list
  of the current iteration, the variable \<^verbatim>\<open>learning_factor\<close>, and the calls made so far.
\<close>

record ('e, 'n) training =
  t_lstm :: 'e
  t_nnet :: 'n
  t_errors :: vec
  t_learning_factor :: real
  t_calls :: "event list"

text \<open>
  The body of the loop over \<^verbatim>\<open>data_list\<close>, lines 118 to 165. \<^verbatim>\<open>fy[3]\<close> and \<^verbatim>\<open>fy[4]\<close> raise
  IndexError on a feature vector of fewer than five fields.
\<close>

definition train_item ::
  "('e, 'n) modules \<Rightarrow> int option \<Rightarrow> bool \<Rightarrow> fix_bit option \<Rightarrow> bool \<Rightarrow>
   ('e, 'n) training \<Rightarrow> 'a item \<Rightarrow> error + ('e, 'n) training" where
  "train_item md k quality fix_bit_val weighted_learning s it =
     (case it of (author, (x_mat, fy, yt)) \<Rightarrow>
      if py_not yt then Inr s
      else
        (case yt of
           None \<Rightarrow> Inr s
         | Some yt \<Rightarrow>
        (case train_forward md k quality fix_bit_val (t_lstm s, t_nnet s) (x_mat, fy, yt) of
           Inl err \<Rightarrow> Inl err
         | Inr (fw, (lstm1, nnet1), ev) \<Rightarrow>
             let dy = map (\<lambda>v. 2 * (v - fw_yt fw)) (fw_y fw) in
             (case nnet_backward_adadelta md nnet1 dy of
                (bp_res, nnet2) \<Rightarrow>
                  let s1 = s\<lparr>t_lstm := lstm1, t_nnet := nnet2,
                             t_errors := t_errors s @ [fw_e fw],
                             t_calls := t_calls s @ ev @ [NnetBackward dy]\<rparr>
                  in if py_int_gt k 0 \<or> k = None
                     then
                       let back_el = replicate (length (fw_Y fw)) 0;
                           bp_res = np_resize bp_res (length (fw_Y fw));
                           back_el = assign_prefix k back_el bp_res
                       in if weighted_learning
                          then
                            (if length fy \<le> 4 then Inl IndexError
                             else
                               let update_size = np_average2 (fy ! 3) (fy ! 4);
                                   lf = learning_factor update_size
                               in Inr (s1\<lparr>t_lstm := lstm_backward_adadelta md lstm1 back_el lf,
                                           t_learning_factor := lf,
                                           t_calls := t_calls s1 @ [LstmBackward back_el lf]\<rparr>))
                          else
                            Inr (s1\<lparr>t_lstm := lstm_backward_adadelta md lstm1 back_el
                                               (t_learning_factor s1),
                                     t_calls := t_calls s1 @
                                       [LstmBackward back_el (t_learning_factor s1)]\<rparr>)
                     else Inr s1))))"

fun train_data_list ::
  "('e, 'n) modules \<Rightarrow> int option \<Rightarrow> bool \<Rightarrow> fix_bit option \<Rightarrow> bool \<Rightarrow>
   ('e, 'n) training \<Rightarrow> 'a item list \<Rightarrow> error + ('e, 'n) training" where
  "train_data_list md k quality fix_bit_val weighted_learning s [] = Inr s"
| "train_data_list md k quality fix_bit_val weighted_learning s (it # data_list) =
     (case train_item md k quality fix_bit_val weighted_learning s it of
        Inl err \<Rightarrow> Inl err
      | Inr s' \<Rightarrow> train_data_list md k quality fix_bit_val weighted_learning s' data_list)"

text \<open>
  The loop over the iterations, lines 109 to 177: \<open>orders iteration\<close> is the outcome of
  \<^verbatim>\<open>random.shuffle(data_list)\<close> in that iteration, and the shuffled list is the one the
  next iteration orders. The counter \<^verbatim>\<open>iter_ctr\<close> and the average error only feed
  \<^verbatim>\<open>print\<close> statements, which are left out.
\<close>

fun train_iterations ::
  "('e, 'n) modules \<Rightarrow> int option \<Rightarrow> bool \<Rightarrow> fix_bit option \<Rightarrow> bool \<Rightarrow>
   (nat \<Rightarrow> nat list) \<Rightarrow> nat list \<Rightarrow> 'a item list \<Rightarrow> ('e, 'n) training \<Rightarrow>
   error + ('e, 'n) training" where
  "train_iterations md k quality fix_bit_val weighted_learning orders [] data_list s = Inr s"
| "train_iterations md k quality fix_bit_val weighted_learning orders (iteration # rest)
     data_list s =
     (let data_list = shuffle (orders iteration) data_list in
      case train_data_list md k quality fix_bit_val weighted_learning (s\<lparr>t_errors := []\<rparr>) data_list of
        Inl err \<Rightarrow> Inl err
      | Inr s' \<Rightarrow>
          train_iterations md k quality fix_bit_val weighted_learning orders rest data_list s')"

text \<open>
  \<^verbatim>\<open>_train_nn_with_k_lstm_bits\<close>, lines 56 to 179. \<^verbatim>\<open>M / 2\<close> is integer division. With
  \<open>N = 0\<close> the loop never binds \<^verbatim>\<open>errors\<close> and the \<^verbatim>\<open>return\<close> raises UnboundLocalError.
  The result is the final state: Python returns \<^verbatim>\<open>(lstm, nnet), errors\<close> of it.
\<close>

definition initial_training :: "('e, 'n) modules \<Rightarrow> int option \<Rightarrow> bool \<Rightarrow> ('e, 'n) training" where
  "initial_training md k quality =
     (let Nf = (if quality then Nf_quality else Nf_existence) in
      \<lparr>t_lstm = lstm_initialize md Nf M,
       t_nnet = nnet_initialize md
                (case k of
                   Some k \<Rightarrow> [k + 12, k + 12 + int (M div 2), 1]
                 | None \<Rightarrow> [12 + 12, 12 + 12 + int (M div 2), 1]),
       t_errors = [],
       t_learning_factor = 1,
       t_calls = []\<rparr>)"

definition train_nn_with_k_lstm_bits ::
  "('e, 'n) modules \<Rightarrow> (nat \<Rightarrow> nat list) \<Rightarrow> 'a item list \<Rightarrow> int option \<Rightarrow> nat \<Rightarrow> bool \<Rightarrow>
   fix_bit option \<Rightarrow> bool \<Rightarrow> error + ('e, 'n) training" where
  "train_nn_with_k_lstm_bits md orders data_list k N quality fix_bit_val weighted_learning =
     (case train_iterations md k quality fix_bit_val weighted_learning orders [0..<N]
             data_list (initial_training md k quality) of
        Inl err \<Rightarrow> Inl err
      | Inr s \<Rightarrow> if N = 0 then Inl UnboundLocalError else Inr s)"

text \<open>
  \<^verbatim>\<open>train_nn_only\<close>, lines 367 to 413, without the pickle file: the items are expanded,
  then rebalanced, then trained on with \<open>k = 0\<close> and the defaults \<^verbatim>\<open>quality=True\<close> and
  \<^verbatim>\<open>fix_bit_val=None\<close>. \<open>nn_only_items\<close> is its data preparation, lines 382 to 385.
\<close>

definition nn_only_items ::
  "nat list \<Rightarrow> (nat \<Rightarrow> nat list) \<Rightarrow> 'a item list \<Rightarrow> error + 'a item list" where
  "nn_only_items draw perms train_items =
     (case expand_to_all train_items of
        Inl err \<Rightarrow> Inl err
      | Inr expanded \<Rightarrow> Inr (rebalance_data draw perms expanded))"

definition train_nn_only ::
  "('e, 'n) modules \<Rightarrow> nat list \<Rightarrow> (nat \<Rightarrow> nat list) \<Rightarrow> (nat \<Rightarrow> nat list) \<Rightarrow>
   'a item list \<Rightarrow> nat \<Rightarrow> bool \<Rightarrow> error + ('e, 'n) training" where
  "train_nn_only md draw perms orders train_items N weighted_learning =
     (case nn_only_items draw perms train_items of
        Inl err \<Rightarrow> Inl err
      | Inr train_items \<Rightarrow>
          train_nn_with_k_lstm_bits md orders train_items (Some 0) N True None
            weighted_learning)"

section \<open>The evaluation pass\<close>

text \<open>
  Lines 226 to 244 of \<^verbatim>\<open>_test_nn_with_k_lstm_bits\<close>. The fixed bit is wrapped as
  \<^verbatim>\<open>np.array([fix_bit_val])\<close>, and the target is normalised when
  \<^verbatim>\<open>k > 0 or k is None and quality\<close>, where \<^verbatim>\<open>and\<close> binds tighter than \<^verbatim>\<open>or\<close>.
\<close>

definition test_forward ::
  "('e, 'n) modules \<Rightarrow> int option \<Rightarrow> bool \<Rightarrow> fix_bit option \<Rightarrow> 'e \<times> 'n \<Rightarrow>
   mat \<times> vec \<times> real \<Rightarrow> error + (forward_values \<times> ('e \<times> 'n) \<times> event list)" where
  "test_forward md k quality fix_bit_val st xfy =
     (case st of (lstm, nnet) \<Rightarrow>
      case xfy of (x_mat, fy, yt) \<Rightarrow>
        let (Y, lstm, ev) =
              (if (py_int_gt k 0 \<or> k = None) \<and> fix_bit_val = None
               then (case lstm_forward md lstm x_mat of
                       (Y, lstm) \<Rightarrow> (Y, lstm, [LstmForward x_mat]))
               else ([], lstm, []))
        in case (case fix_bit_val of
                   None \<Rightarrow> Inr (py_slice_to k Y @ fy)
                 | Some b \<Rightarrow> np_concatenate (np_array_of_list b) fy) of
             Inl err \<Rightarrow> Inl err
           | Inr nnet_input \<Rightarrow>
               (case nnet_forward md nnet nnet_input of
                  (y, nnet) \<Rightarrow>
                    let yt = (if py_int_gt k 0 \<or> (k = None \<and> quality)
                              then 1 * (yt + 1) / 2 else yt);
                        e = sum_list (map (\<lambda>v. (v - yt) ^ 2) y)
                    in Inr (\<lparr>fw_Y = Y, fw_nnet_input = nnet_input, fw_y = y,
                              fw_yt = yt, fw_e = e\<rparr>,
                            (lstm, nnet), ev @ [NnetForward nnet_input])))"

text \<open>
  The state of a run of \<^verbatim>\<open>_test_nn_with_k_lstm_bits\<close>: the two objects, the four lists it
  returns, and the calls made so far.
\<close>

record ('e, 'n) validation =
  v_lstm :: 'e
  v_nnet :: 'n
  v_errors :: vec
  v_y_pred :: vec
  v_y_true :: vec
  v_label_weights :: vec
  v_calls :: "event list"

text \<open>The body of the loop over the items, lines 221 to 254.\<close>

definition test_item ::
  "('e, 'n) modules \<Rightarrow> int option \<Rightarrow> bool \<Rightarrow> fix_bit option \<Rightarrow>
   ('e, 'n) validation \<Rightarrow> 'a item \<Rightarrow> error + ('e, 'n) validation" where
  "test_item md k quality fix_bit_val s it =
     (case it of (author, (x_mat, fy, yt)) \<Rightarrow>
      if py_not yt then Inr s
      else
        (case yt of
           None \<Rightarrow> Inr s
         | Some yt \<Rightarrow>
        (case test_forward md k quality fix_bit_val (v_lstm s, v_nnet s) (x_mat, fy, yt) of
           Inl err \<Rightarrow> Inl err
         | Inr (fw, (lstm1, nnet1), ev) \<Rightarrow>
             if length fy \<le> 4 then Inl IndexError
             else
               let update_size = np_average2 (fy ! 3) (fy ! 4)
               in Inr (s\<lparr>v_lstm := lstm1, v_nnet := nnet1,
                          v_errors := v_errors s @ [fw_e fw],
                          v_y_pred := v_y_pred s @ fw_y fw,
                          v_y_true := v_y_true s @ [fw_yt fw],
                          v_label_weights := v_label_weights s @ [update_size],
                          v_calls := v_calls s @ ev\<rparr>))))"

fun test_items ::
  "('e, 'n) modules \<Rightarrow> int option \<Rightarrow> bool \<Rightarrow> fix_bit option \<Rightarrow>
   ('e, 'n) validation \<Rightarrow> 'a item list \<Rightarrow> error + ('e, 'n) validation" where
  "test_items md k quality fix_bit_val s [] = Inr s"
| "test_items md k quality fix_bit_val s (it # items) =
     (case test_item md k quality fix_bit_val s it of
        Inl err \<Rightarrow> Inl err
      | Inr s' \<Rightarrow> test_items md k quality fix_bit_val s' items)"

text \<open>
  \<^verbatim>\<open>_test_nn_with_k_lstm_bits\<close>, lines 182 to 259; \<open>items\<close> is \<^verbatim>\<open>test_data.items()\<close>.
\<close>

definition test_nn_with_k_lstm_bits ::
  "('e, 'n) modules \<Rightarrow> 'a item list \<Rightarrow> 'e \<Rightarrow> 'n \<Rightarrow> int option \<Rightarrow> bool \<Rightarrow> fix_bit option \<Rightarrow>
   error + ('e, 'n) validation" where
  "test_nn_with_k_lstm_bits md items lstm nnet k quality fix_bit_val =
     test_items md k quality fix_bit_val
       \<lparr>v_lstm = lstm, v_nnet = nnet, v_errors = [], v_y_pred = [], v_y_true = [],
        v_label_weights = [], v_calls = []\<rparr> items"

section \<open>Metrics\<close>

text \<open>
  \<^verbatim>\<open>_error_measurement\<close>, lines 416 to 444. The four scoring functions come from
  \<^verbatim>\<open>sklearn.metrics\<close> and are parameters; each may raise. The \<^verbatim>\<open>print\<close> statements are
  left out.
\<close>

record 'm metrics =
  precision_recall_fscore_support :: "nat list \<Rightarrow> nat list \<Rightarrow> error + ('m \<times> 'm \<times> 'm \<times> 'm)"
  precision_score :: "nat list \<Rightarrow> nat list \<Rightarrow> error + real"
  recall_score :: "nat list \<Rightarrow> nat list \<Rightarrow> error + real"
  f1_score :: "nat list \<Rightarrow> nat list \<Rightarrow> error + real"

definition error_measurement ::
  "'m metrics \<Rightarrow> vec \<Rightarrow> vec \<Rightarrow> vec \<Rightarrow> error + ('m \<times> 'm \<times> 'm)" where
  "error_measurement sk y_pred y_true label_weights =
     (let Y_pred = map (\<lambda>i. if i < 1/2 then 1 else 0) y_pred;
          Y_true = map (\<lambda>i. if i < 1/2 then 1 else 0) y_true
      in case precision_recall_fscore_support sk Y_true Y_pred of
           Inl err \<Rightarrow> Inl err
         | Inr (precision, recall, fscore, support) \<Rightarrow>
             (case precision_score sk Y_true Y_pred of
                Inl err \<Rightarrow> Inl err
              | Inr prec_score \<Rightarrow>
                  (case recall_score sk Y_true Y_pred of
                     Inl err \<Rightarrow> Inl err
                   | Inr rec_score \<Rightarrow>
                       (case f1_score sk Y_true Y_pred of
                          Inl err \<Rightarrow> Inl err
                        | Inr fs \<Rightarrow> Inr (precision, recall, fscore)))))"

section \<open>Sample data\<close>

text \<open>
  Small inputs on which the functions are run: three bare items with the labels 1, 0 and
  -1; one author entry with two history rows and the label 0, with its expansion; and,
  for the loops, a history of one revision of fourteen fields and a feature vector of
  twelve fields whose fields 3 and 4 are 2 and 4.
\<close>

definition demo_x_mat :: mat where
  "demo_x_mat = [[1, 0, 0, 1, 1, 0, 0, 0, 0, 0, 0, 0, 0, 1]]"

definition demo_fy :: vec where
  "demo_fy = [0, 0, 0, 2, 4, 0, 0, 0, 0, 0, 0, 0]"

definition demo_items :: "nat item list" where
  "demo_items = [(0, ([], [], Some 1)), (1, ([], [], Some 0)), (2, ([], [], Some (- 1)))]"

definition demo_entries :: "nat item list" where
  "demo_entries = [(7, ([[1, 2, 3, 1], [4, 5, 6, - 1]], [9, 9], Some 0))]"

definition demo_expanded :: "nat item list" where
  "demo_expanded =
     [(7, ([], [1, 2], Some 1)), (7, ([], [4, 5], Some (- 1))), (7, ([], [9, 9], Some (1/2)))]"

section \<open>Properties of the random source\<close>

lemma sample_draw_subset:
  assumes "sample_draw draw (length xs) n"
  shows "mset (random_sample draw xs n) \<subseteq># mset xs"
proof -
  from assms have d: "distinct draw" and r: "set draw \<subseteq> {0..<length xs}" and l: "length draw = n"
    by (auto simp: sample_draw_def list_all_iff)
  have "mset draw = mset_set (set draw)"
    using d by (simp add: mset_set_set)
  also have "\<dots> \<subseteq># mset_set {0..<length xs}"
    using r by (simp add: subset_imp_msubset_mset_set)
  also have "\<dots> = mset [0..<length xs]"
    by (simp add: mset_upt)
  finally have "image_mset (nth xs) (mset draw) \<subseteq># image_mset (nth xs) (mset [0..<length xs])"
    by (rule image_mset_subseteq_mono)
  then have "mset (map (nth xs) draw) \<subseteq># mset (map (nth xs) [0..<length xs])"
    by simp
  then show ?thesis
    using l by (simp add: random_sample_def map_nth)
qed

lemma sample_draw_length:
  "sample_draw draw len n \<Longrightarrow> length (random_sample draw xs n) = n"
  by (simp add: sample_draw_def random_sample_def)

lemma shuffle_draw_mset:
  assumes "shuffle_draw perm (length xs)"
  shows "mset (shuffle perm xs) = mset xs"
proof -
  from assms have s: "sample_draw perm (length xs) (length xs)"
    by (simp add: shuffle_draw_def)
  then have sub: "mset (random_sample perm xs (length xs)) \<subseteq># mset xs"
    by (rule sample_draw_subset)
  have len: "length perm = length xs"
    using s by (simp add: sample_draw_def)
  have eq: "random_sample perm xs (length xs) = shuffle perm xs"
    using len by (simp add: random_sample_def shuffle_def)
  have "size (mset (shuffle perm xs)) = size (mset xs)"
    using len by (simp add: shuffle_def)
  with sub eq show ?thesis
    by (metis mset_subset_size subset_mset.less_le size_mset less_irrefl)
qed

section \<open>Rebalancing\<close>

lemma item_filters:
  "(\<lambda>(author, (x_mat, fy, yt)). py_lt yt c) = (\<lambda>it. py_lt (label it) c)"
  "(\<lambda>(author, (x_mat, fy, yt)). py_gt yt c) = (\<lambda>it::'a item. py_gt (label it) c)"
  by (auto simp: label_def fun_eq_iff)

lemma py_lt_not_gt: "py_lt yt c \<Longrightarrow> \<not> py_gt yt c"
  by (auto simp: py_lt_def py_gt_def split: option.splits)

lemma fold_shuffle_mset:
  "list_all (\<lambda>i. shuffle_draw (perms i) (length xs)) js \<Longrightarrow>
   mset (fold (\<lambda>i new_items. shuffle (perms i) new_items) js xs) = mset xs"
proof (induction js arbitrary: xs)
  case Nil
  then show ?case by simp
next
  case (Cons j js)
  from Cons.prems have d: "shuffle_draw (perms j) (length xs)"
    and rest: "list_all (\<lambda>i. shuffle_draw (perms i) (length xs)) js"
    by simp_all
  have len: "length (shuffle (perms j) xs) = length xs"
    using d by (simp add: shuffle_def shuffle_draw_def sample_draw_def)
  have "mset (fold (\<lambda>i new_items. shuffle (perms i) new_items) js (shuffle (perms j) xs))
        = mset (shuffle (perms j) xs)"
    using rest len by (intro Cons.IH) simp
  then show ?case
    using d by (simp add: shuffle_draw_mset)
qed

text \<open>
  Whatever the random source draws, the output is a rearrangement of two lists of equal
  length, one taken from the items below one half and one from the items above it.
\<close>

lemma rebalance_data_parts:
  assumes "rebalance_draws draw perms items"
  shows "\<exists>neg pos.
           mset (rebalance_data draw perms items) = mset neg + mset pos \<and>
           mset neg \<subseteq># mset (filter (\<lambda>it. py_lt (label it) (1/2)) items) \<and>
           mset pos \<subseteq># mset (filter (\<lambda>it. py_gt (label it) (1/2)) items) \<and>
           length neg = min (length (filter (\<lambda>it. py_lt (label it) (1/2)) items))
                            (length (filter (\<lambda>it. py_gt (label it) (1/2)) items)) \<and>
           length pos = length neg"
proof -
  define N where "N = filter (\<lambda>it. py_lt (label it) (1/2)) items"
  define P where "P = filter (\<lambda>it. py_gt (label it) (1/2)) items"
  from assms have s: "sample_draw draw (max (length N) (length P)) (min (length N) (length P))"
    and sh: "list_all (\<lambda>i. shuffle_draw (perms i) (2 * min (length N) (length P))) [0..<5]"
    by (simp_all add: rebalance_draws_def N_def P_def Let_def)
  show ?thesis
  proof (cases "length N \<le> length P")
    case True
    define P' where "P' = random_sample draw P (length N)"
    from s True have s': "sample_draw draw (length P) (length N)"
      by (simp add: max_def min_def)
    have lenP': "length P' = length N"
      unfolding P'_def using s' by (rule sample_draw_length)
    have subP': "mset P' \<subseteq># mset P"
      unfolding P'_def using s' by (rule sample_draw_subset)
    have out: "rebalance_data draw perms items =
               fold (\<lambda>i new_items. shuffle (perms i) new_items) [0..<5] (N @ P')"
      using True by (simp add: rebalance_data_def item_filters N_def P_def P'_def Let_def)
    have "list_all (\<lambda>i. shuffle_draw (perms i) (length (N @ P'))) [0..<5]"
      using sh True lenP' by (simp add: min_def mult_2)
    then have "mset (rebalance_data draw perms items) = mset (N @ P')"
      unfolding out by (rule fold_shuffle_mset)
    then show ?thesis
      using subP' lenP' True unfolding N_def [symmetric] P_def [symmetric]
      by (intro exI [of _ N] exI [of _ P']) (simp add: min_def)
  next
    case False
    define N' where "N' = random_sample draw N (length P)"
    from s False have s': "sample_draw draw (length N) (length P)"
      by (simp add: max_def min_def)
    have lenN': "length N' = length P"
      unfolding N'_def using s' by (rule sample_draw_length)
    have subN': "mset N' \<subseteq># mset N"
      unfolding N'_def using s' by (rule sample_draw_subset)
    have out: "rebalance_data draw perms items =
               fold (\<lambda>i new_items. shuffle (perms i) new_items) [0..<5] (N' @ P)"
      using False by (simp add: rebalance_data_def item_filters N_def P_def N'_def Let_def)
    have "list_all (\<lambda>i. shuffle_draw (perms i) (length (N' @ P))) [0..<5]"
      using sh False lenN' by (simp add: min_def mult_2)
    then have "mset (rebalance_data draw perms items) = mset (N' @ P)"
      unfolding out by (rule fold_shuffle_mset)
    then show ?thesis
      using subN' lenN' False unfolding N_def [symmetric] P_def [symmetric]
      by (intro exI [of _ N'] exI [of _ P]) (simp add: min_def)
  qed
qed

lemma filter_length_all:
  "\<forall>x \<in> set xs. P x \<Longrightarrow> length (filter P xs) = length xs"
  by (induction xs) auto

lemma filter_length_none:
  "\<forall>x \<in> set xs. \<not> P x \<Longrightarrow> length (filter P xs) = 0"
  by (induction xs) auto

lemma rebalance_data_labels:
  assumes "rebalance_draws draw perms items" and "it \<in> set (rebalance_data draw perms items)"
  shows "py_lt (label it) (1/2) \<or> py_gt (label it) (1/2)"
proof -
  from rebalance_data_parts [OF assms(1)] obtain neg pos where
    out: "mset (rebalance_data draw perms items) = mset neg + mset pos"
    and neg: "mset neg \<subseteq># mset (filter (\<lambda>it. py_lt (label it) (1/2)) items)"
    and pos: "mset pos \<subseteq># mset (filter (\<lambda>it. py_gt (label it) (1/2)) items)"
    by blast
  from assms(2) have "it \<in># mset neg + mset pos"
    by (simp flip: out)
  then have "it \<in> set neg \<or> it \<in> set pos"
    by simp
  then show ?thesis
    using set_mset_mono [OF neg] set_mset_mono [OF pos] by auto
qed

text \<open>Every item list has an outcome of the random source: the identity draws.\<close>

lemma rebalance_draws_exist:
  "\<exists>draw perms. rebalance_draws draw perms items"
proof -
  let ?n = "length (filter (\<lambda>it. py_lt (label it) (1/2)) items)"
  let ?p = "length (filter (\<lambda>it. py_gt (label it) (1/2)) items)"
  have "rebalance_draws [0..<min ?n ?p] (\<lambda>i. [0..<2 * min ?n ?p]) items"
    by (auto simp: rebalance_draws_def sample_draw_def shuffle_draw_def list_all_iff Let_def)
  then show ?thesis by blast
qed

lemma demo_items_draws: "rebalance_draws [1] (\<lambda>i. [1, 0]) demo_items"
  by (simp add: rebalance_draws_def demo_items_def label_def py_lt_def py_gt_def
      sample_draw_def shuffle_draw_def upt_rec)

lemma demo_expanded_draws: "rebalance_draws [0] (\<lambda>i. [1, 0]) demo_expanded"
  by (simp add: rebalance_draws_def demo_expanded_def label_def py_lt_def py_gt_def
      sample_draw_def shuffle_draw_def upt_rec)

text \<open>
  C3. For every item list and every outcome of the random source, the output of
  \<open>rebalance_data\<close> has as many items with \<^verbatim>\<open>yt < 0.5\<close> as items with \<^verbatim>\<open>yt > 0.5\<close>, and it
  is empty when one of the two classes is empty in the input. The comparisons are the
  code's own: on numbers the usual order, and \<^verbatim>\<open>None < 0.5\<close> as Python 2 evaluates it.
\<close>

theorem rebalance_data_balanced:
  assumes "rebalance_draws draw perms items"
  shows "length (filter (\<lambda>it. py_lt (label it) (1/2)) (rebalance_data draw perms items)) =
         length (filter (\<lambda>it. py_gt (label it) (1/2)) (rebalance_data draw perms items)) \<and>
         ((filter (\<lambda>it. py_lt (label it) (1/2)) items = [] \<or>
           filter (\<lambda>it. py_gt (label it) (1/2)) items = []) \<longrightarrow>
          rebalance_data draw perms items = [])"
proof -
  let ?lt = "\<lambda>it::'a item. py_lt (label it) (1/2)"
  let ?gt = "\<lambda>it::'a item. py_gt (label it) (1/2)"
  let ?out = "rebalance_data draw perms items"
  from rebalance_data_parts [OF assms] obtain neg pos where
    out: "mset ?out = mset neg + mset pos"
    and neg: "mset neg \<subseteq># mset (filter ?lt items)"
    and pos: "mset pos \<subseteq># mset (filter ?gt items)"
    and ln: "length neg = min (length (filter ?lt items)) (length (filter ?gt items))"
    and lp: "length pos = length neg"
    by blast
  have negP: "\<forall>x \<in> set neg. ?lt x"
    using set_mset_mono [OF neg] by auto
  have posP: "\<forall>x \<in> set pos. ?gt x"
    using set_mset_mono [OF pos] by auto
  have negQ: "\<forall>x \<in> set neg. \<not> ?gt x"
    using negP py_lt_not_gt by blast
  have posQ: "\<forall>x \<in> set pos. \<not> ?lt x"
    using posP py_lt_not_gt by blast
  have "length (filter ?lt ?out) = size (filter_mset ?lt (mset ?out))"
    by (simp flip: mset_filter)
  also have "\<dots> = length (filter ?lt neg) + length (filter ?lt pos)"
    by (simp add: out flip: mset_filter)
  also have "\<dots> = length neg"
    using filter_length_all [OF negP] filter_length_none [OF posQ] by simp
  finally have a: "length (filter ?lt ?out) = length neg" .
  have "length (filter ?gt ?out) = size (filter_mset ?gt (mset ?out))"
    by (simp flip: mset_filter)
  also have "\<dots> = length (filter ?gt neg) + length (filter ?gt pos)"
    by (simp add: out flip: mset_filter)
  also have "\<dots> = length pos"
    using filter_length_all [OF posP] filter_length_none [OF negQ] by simp
  finally have b: "length (filter ?gt ?out) = length pos" .
  have c: "?out = []" if "filter ?lt items = [] \<or> filter ?gt items = []"
  proof -
    from that ln have "length neg = 0" by auto
    with lp have "size (mset ?out) = 0" by (simp add: out)
    then show ?thesis by simp
  qed
  from a b lp c show ?thesis by simp
qed

theorem rebalance_data_balanced_witness:
  "rebalance_draws [1] (\<lambda>i. [1, 0]) demo_items \<and>
   length (filter (\<lambda>it. py_lt (label it) (1/2)) (rebalance_data [1] (\<lambda>i. [1, 0]) demo_items)) =
   length (filter (\<lambda>it. py_gt (label it) (1/2)) (rebalance_data [1] (\<lambda>i. [1, 0]) demo_items))"
  using rebalance_data_balanced [OF demo_items_draws] demo_items_draws by blast

text \<open>
  C5. For every item list and every outcome of the random source, every item of the
  output of \<open>rebalance_data\<close> is an item of the input, no item occurs more often than in
  the input, and the output is no longer than the input.
\<close>

theorem rebalance_data_subset:
  assumes "rebalance_draws draw perms items"
  shows "mset (rebalance_data draw perms items) \<subseteq># mset items \<and>
         set (rebalance_data draw perms items) \<subseteq> set items \<and>
         length (rebalance_data draw perms items) \<le> length items"
proof -
  let ?lt = "\<lambda>it::'a item. py_lt (label it) (1/2)"
  let ?gt = "\<lambda>it::'a item. py_gt (label it) (1/2)"
  let ?out = "rebalance_data draw perms items"
  from rebalance_data_parts [OF assms] obtain neg pos where
    out: "mset ?out = mset neg + mset pos"
    and neg: "mset neg \<subseteq># mset (filter ?lt items)"
    and pos: "mset pos \<subseteq># mset (filter ?gt items)"
    by blast
  have "mset (filter ?lt items) + mset (filter ?gt items) \<subseteq># mset items"
  proof (induction items)
    case Nil
    then show ?case by simp
  next
    case (Cons it items)
    then show ?case
      using py_lt_not_gt [of "label it" "1/2"]
      by (auto intro: subset_mset.order_trans)
  qed
  with neg pos have sub: "mset ?out \<subseteq># mset items"
    unfolding out by (meson subset_mset.add_mono subset_mset.order_trans)
  have "set ?out \<subseteq> set items"
    using set_mset_mono [OF sub] by simp
  moreover have "length ?out \<le> length items"
    using size_mset_mono [OF sub] by simp
  ultimately show ?thesis using sub by simp
qed

theorem rebalance_data_subset_witness:
  "rebalance_draws [1] (\<lambda>i. [1, 0]) demo_items \<and>
   set (rebalance_data [1] (\<lambda>i. [1, 0]) demo_items) \<subseteq> set demo_items \<and>
   length (rebalance_data [1] (\<lambda>i. [1, 0]) demo_items) \<le> length demo_items"
  using rebalance_data_subset [OF demo_items_draws] demo_items_draws by blast

section \<open>Expansion\<close>



lemma expand_entry_current:
  "expand_entry (author, (x_mat, fy, Some v)) = Inr new_items \<Longrightarrow>
   (author, ([], fy, Some ((v + 1) / 2))) \<in> set new_items"
  by (auto simp: expand_entry_def split: sum.splits)

lemma expand_to_all_current:
  "expand_to_all entries = Inr items \<Longrightarrow> (author, (x_mat, fy, Some v)) \<in> set entries \<Longrightarrow>
   (author, ([], fy, Some ((v + 1) / 2))) \<in> set items"
proof (induction entries arbitrary: items)
  case Nil
  then show ?case by simp
next
  case (Cons it entries)
  from Cons.prems(1) obtain new_items rest where
    e: "expand_entry it = Inr new_items" and r: "expand_to_all entries = Inr rest"
    and i: "items = new_items @ rest"
    by (auto split: sum.splits)
  from Cons.prems(2) consider "it = (author, (x_mat, fy, Some v))"
    | "(author, (x_mat, fy, Some v)) \<in> set entries" by auto
  then show ?case
  proof cases
    case 1
    with e i show ?thesis using expand_entry_current by fastforce
  next
    case 2
    with r i Cons.IH show ?thesis by simp
  qed
qed

lemma demo_entries_expanded: "expand_to_all demo_entries = Inr demo_expanded"
  by (simp add: demo_entries_def demo_expanded_def expand_entry_def expand_row_def)




text \<open>
  C10. For every outcome of the random source, an item whose label is exactly one half
  is not in the output of \<open>rebalance_data\<close>. In \<open>train_nn_only\<close> the list rebalanced is the
  expansion of the entries: an entry with the label 0 yields the example with the label
  one half, and that example is not among the items trained on.
\<close>

theorem rebalance_data_drops_half:
  assumes "rebalance_draws draw perms items"
  shows "(\<forall>it \<in> set items. label it = Some (1/2) \<longrightarrow> it \<notin> set (rebalance_data draw perms items)) \<and>
         (\<forall>entries author x_mat fy.
            expand_to_all entries = Inr items \<and> (author, (x_mat, fy, Some 0)) \<in> set entries \<longrightarrow>
              nn_only_items draw perms entries = Inr (rebalance_data draw perms items) \<and>
              (author, ([], fy, Some (1/2))) \<in> set items \<and>
              (author, ([], fy, Some (1/2))) \<notin> set (rebalance_data draw perms items))"
proof -
  have drop: "it \<notin> set (rebalance_data draw perms items)" if "label it = Some (1/2)" for it :: "'a item"
    using rebalance_data_labels [OF assms, of it] that
    by (auto simp: py_lt_def py_gt_def)
  have "nn_only_items draw perms entries = Inr (rebalance_data draw perms items) \<and>
        (author, ([], fy, Some (1/2))) \<in> set items \<and>
        (author, ([], fy, Some (1/2))) \<notin> set (rebalance_data draw perms items)"
    if e: "expand_to_all entries = Inr items" and m: "(author, (x_mat, fy, Some 0)) \<in> set entries"
    for entries author x_mat fy
  proof -
    have "(author, ([], fy, Some ((0 + 1) / 2))) \<in> set items"
      using e m by (rule expand_to_all_current)
    then have i: "(author, ([], fy, Some (1/2))) \<in> set items" by simp
    have "label (author, ([]::mat, fy, Some (1/2))) = Some (1/2)"
      by (simp add: label_def)
    then have "(author, ([], fy, Some (1/2))) \<notin> set (rebalance_data draw perms items)"
      by (rule drop)
    with i e show ?thesis by (simp add: nn_only_items_def)
  qed
  with drop show ?thesis by blast
qed

theorem rebalance_data_drops_half_witness:
  "rebalance_draws [0] (\<lambda>i. [1, 0]) demo_expanded \<and>
   nn_only_items [0] (\<lambda>i. [1, 0]) demo_entries =
     Inr (rebalance_data [0] (\<lambda>i. [1, 0]) demo_expanded) \<and>
   (7, ([], [9, 9], Some (1/2))) \<in> set demo_expanded \<and>
   (7, ([], [9, 9], Some (1/2))) \<notin> set (rebalance_data [0] (\<lambda>i. [1, 0]) demo_expanded)"
proof -
  have m: "(7, ([[1, 2, 3, 1], [4, 5, 6, - 1]], [9, 9], Some 0)) \<in> set demo_entries"
    by (simp add: demo_entries_def)
  from rebalance_data_drops_half [OF demo_expanded_draws] demo_entries_expanded m
  have "nn_only_items [0] (\<lambda>i. [1, 0]) demo_entries =
          Inr (rebalance_data [0] (\<lambda>i. [1, 0]) demo_expanded) \<and>
        (7, ([], [9, 9], Some (1/2))) \<in> set demo_expanded \<and>
        (7, ([], [9, 9], Some (1/2))) \<notin> set (rebalance_data [0] (\<lambda>i. [1, 0]) demo_expanded)"
    by blast
  with demo_expanded_draws show ?thesis by blast
qed

section \<open>Running the loops on concrete data\<close>

lemma replicate_numeral:
  "replicate (numeral n) x = x # replicate (pred_numeral n) x"
  by (simp add: numeral_eq_Suc)

lemmas run_defs = replicate_numeral demo_x_mat_def demo_fy_def
  train_nn_with_k_lstm_bits_def initial_training_def train_item_def train_forward_def
  test_forward_def test_item_def counting_modules_def py_not_def py_int_gt_def py_slice_to_def
  np_resize_def assign_prefix_def np_average2_def learning_factor_def shuffle_def
  M_def Nf_quality_def Nf_existence_def Let_def upt_conv_Cons

section \<open>Items without a target\<close>

lemma train_data_list_append:
  "train_data_list md k quality fix_bit_val weighted_learning s (xs @ ys) =
     (case train_data_list md k quality fix_bit_val weighted_learning s xs of
        Inl err \<Rightarrow> Inl err
      | Inr s' \<Rightarrow> train_data_list md k quality fix_bit_val weighted_learning s' ys)"
  by (induction xs arbitrary: s) (auto split: sum.splits)

lemma test_items_append:
  "test_items md k quality fix_bit_val s (xs @ ys) =
     (case test_items md k quality fix_bit_val s xs of
        Inl err \<Rightarrow> Inl err
      | Inr s' \<Rightarrow> test_items md k quality fix_bit_val s' ys)"
  by (induction xs arbitrary: s) (auto split: sum.splits)

text \<open>
  C8. An item whose target is falsy (\<^verbatim>\<open>None\<close> or zero) is skipped by the training loop and
  by the evaluation pass: the step returns the state it was given, so no call is made on
  the encoder or the predictor, nothing is appended to the errors, predictions, true
  labels or weights, and no exception is raised; the loops run on a list with such an
  item exactly as on the list without it.
\<close>

theorem falsy_target_skipped:
  assumes "py_not yt"
  shows "train_item md k quality fix_bit_val weighted_learning s (author, (x_mat, fy, yt)) = Inr s \<and>
         test_item md k quality fix_bit_val v (author, (x_mat, fy, yt)) = Inr v \<and>
         train_data_list md k quality fix_bit_val weighted_learning s
             (before @ (author, (x_mat, fy, yt)) # after) =
           train_data_list md k quality fix_bit_val weighted_learning s (before @ after) \<and>
         test_items md k quality fix_bit_val v (before @ (author, (x_mat, fy, yt)) # after) =
           test_items md k quality fix_bit_val v (before @ after)"
proof -
  have a: "train_item md k quality fix_bit_val weighted_learning s (author, (x_mat, fy, yt)) = Inr s"
    for s :: "('a, 'b) training"
    using assms by (simp add: train_item_def)
  have b: "test_item md k quality fix_bit_val v (author, (x_mat, fy, yt)) = Inr v"
    for v :: "('a, 'b) validation"
    using assms by (simp add: test_item_def)
  have c: "train_data_list md k quality fix_bit_val weighted_learning s
             (before @ (author, (x_mat, fy, yt)) # after) =
           train_data_list md k quality fix_bit_val weighted_learning s (before @ after)"
    by (simp add: train_data_list_append a split: sum.splits)
  have d: "test_items md k quality fix_bit_val v (before @ (author, (x_mat, fy, yt)) # after) =
           test_items md k quality fix_bit_val v (before @ after)"
    by (simp add: test_items_append b split: sum.splits)
  from a b c d show ?thesis by simp
qed

theorem falsy_target_skipped_witness:
  "py_not (Some 0) \<and>
   train_item counting_modules (Some 1) True None False
     (initial_training counting_modules (Some 1) True)
     (0::nat, (demo_x_mat, demo_fy, Some 0)) =
     Inr (initial_training counting_modules (Some 1) True) \<and>
   test_nn_with_k_lstm_bits counting_modules
     [(0::nat, (demo_x_mat, demo_fy, Some 0))] 0 0 (Some 1) True None =
     Inr \<lparr>v_lstm = 0, v_nnet = 0, v_errors = [], v_y_pred = [], v_y_true = [],
          v_label_weights = [], v_calls = []\<rparr>"
proof -
  have h: "py_not (Some 0)"
    by (simp add: py_not_def)
  from falsy_target_skipped [OF h, where md = counting_modules and k = "Some 1"
      and quality = True and fix_bit_val = None and weighted_learning = False
      and s = "initial_training counting_modules (Some 1) True"
      and v = "\<lparr>v_lstm = 0, v_nnet = 0, v_errors = [], v_y_pred = [], v_y_true = [],
          v_label_weights = [], v_calls = []\<rparr>"
      and author = "0::nat" and x_mat = demo_x_mat and fy = demo_fy
      and before = "[]" and after = "[]"] h
  show ?thesis
    by (simp add: test_nn_with_k_lstm_bits_def)
qed

section \<open>The scale of the encoder's backward call\<close>

lemma backward_scales_append:
  "backward_scales (xs @ ys) = backward_scales xs @ backward_scales ys"
  by (induction xs rule: backward_scales.induct) auto

lemma train_forward_scales:
  "train_forward md k quality fix_bit_val st xfy = Inr (fw, st', ev) \<Longrightarrow> backward_scales ev = []"
  by (auto simp: train_forward_def Let_def split: prod.splits sum.splits if_splits option.splits)

lemma train_item_scale_weighted:
  assumes enc: "py_int_gt k 0 \<or> k = None"
    and yt: "\<not> py_not yt"
    and run: "train_item md k quality fix_bit_val True s (author, (x_mat, fy, yt)) = Inr s'"
  shows "backward_scales (t_calls s') =
           backward_scales (t_calls s) @ [((fy ! 3 + fy ! 4) / 2)\<^sup>2]"
proof -
  from yt obtain v where v: "yt = Some v" by (cases yt) (auto simp: py_not_def)
  from run yt v enc obtain fw l1 n1 ev where
    f: "train_forward md k quality fix_bit_val (t_lstm s, t_nnet s) (x_mat, fy, v) = Inr (fw, (l1, n1), ev)"
    by (auto simp: train_item_def split: sum.splits)
  have ev: "backward_scales ev = []"
    using f by (rule train_forward_scales)
  from run yt v enc f have len: "4 < length fy"
    by (auto simp: train_item_def Let_def split: prod.splits if_splits)
  from run yt v enc f len ev show ?thesis
    by (auto simp: train_item_def Let_def learning_factor_def np_average2_def power2_eq_square
        backward_scales_append split: prod.splits)
qed

lemma train_item_scale_unweighted:
  assumes enc: "py_int_gt k 0 \<or> k = None"
    and yt: "\<not> py_not yt"
    and run: "train_item md k quality fix_bit_val False s (author, (x_mat, fy, yt)) = Inr s'"
  shows "backward_scales (t_calls s') = backward_scales (t_calls s) @ [t_learning_factor s] \<and>
         t_learning_factor s' = t_learning_factor s"
proof -
  from yt obtain v where v: "yt = Some v" by (cases yt) (auto simp: py_not_def)
  from run yt v enc obtain fw l1 n1 ev where
    f: "train_forward md k quality fix_bit_val (t_lstm s, t_nnet s) (x_mat, fy, v) = Inr (fw, (l1, n1), ev)"
    by (auto simp: train_item_def split: sum.splits)
  have ev: "backward_scales ev = []"
    using f by (rule train_forward_scales)
  from run yt v enc f ev show ?thesis
    by (auto simp: train_item_def Let_def backward_scales_append split: prod.splits)
qed

text \<open>Without weighted learning the variable keeps its value and every scale passed is that value.\<close>

lemma train_item_unweighted_inv:
  assumes run: "train_item md k quality fix_bit_val False s it = Inr s'"
    and inv: "t_learning_factor s = 1" "list_all (\<lambda>lf. lf = 1) (backward_scales (t_calls s))"
  shows "t_learning_factor s' = 1 \<and> list_all (\<lambda>lf. lf = 1) (backward_scales (t_calls s'))"
proof -
  obtain author x_mat fy yt where it: "it = (author, (x_mat, fy, yt))"
    by (cases it) auto
  show ?thesis
  proof (cases "py_not yt")
    case True
    with run it inv show ?thesis by (simp add: train_item_def)
  next
    case False
    then obtain v where v: "yt = Some v" by (cases yt) (auto simp: py_not_def)
    from run False v it obtain fw l1 n1 ev where
      f: "train_forward md k quality fix_bit_val (t_lstm s, t_nnet s) (x_mat, fy, v) = Inr (fw, (l1, n1), ev)"
      by (auto simp: train_item_def split: sum.splits)
    have ev: "backward_scales ev = []"
      using f by (rule train_forward_scales)
    from run False v it f ev inv show ?thesis
      by (auto simp: train_item_def Let_def backward_scales_append split: prod.splits if_splits)
  qed
qed

lemma train_data_list_unweighted_inv:
  "train_data_list md k quality fix_bit_val False s data_list = Inr s' \<Longrightarrow>
   t_learning_factor s = 1 \<Longrightarrow> list_all (\<lambda>lf. lf = 1) (backward_scales (t_calls s)) \<Longrightarrow>
   t_learning_factor s' = 1 \<and> list_all (\<lambda>lf. lf = 1) (backward_scales (t_calls s'))"
proof (induction data_list arbitrary: s)
  case Nil
  then show ?case by simp
next
  case (Cons it data_list)
  from Cons.prems(1) obtain s1 where
    a: "train_item md k quality fix_bit_val False s it = Inr s1"
    and b: "train_data_list md k quality fix_bit_val False s1 data_list = Inr s'"
    by (auto split: sum.splits)
  from train_item_unweighted_inv [OF a Cons.prems(2,3)] Cons.IH [OF b] show ?case
    by blast
qed

lemma train_iterations_unweighted_inv:
  "train_iterations md k quality fix_bit_val False orders its data_list s = Inr s' \<Longrightarrow>
   t_learning_factor s = 1 \<Longrightarrow> list_all (\<lambda>lf. lf = 1) (backward_scales (t_calls s)) \<Longrightarrow>
   t_learning_factor s' = 1 \<and> list_all (\<lambda>lf. lf = 1) (backward_scales (t_calls s'))"
proof (induction its arbitrary: s data_list)
  case Nil
  then show ?case by simp
next
  case (Cons iteration its)
  from Cons.prems(1) obtain s1 where
    a: "train_data_list md k quality fix_bit_val False (s\<lparr>t_errors := []\<rparr>)
          (shuffle (orders iteration) data_list) = Inr s1"
    and b: "train_iterations md k quality fix_bit_val False orders its
          (shuffle (orders iteration) data_list) s1 = Inr s'"
    by (auto simp: Let_def split: sum.splits)
  from Cons.prems(2,3) have
    "t_learning_factor (s\<lparr>t_errors := []\<rparr>) = 1"
    "list_all (\<lambda>lf. lf = 1) (backward_scales (t_calls (s\<lparr>t_errors := []\<rparr>)))"
    by simp_all
  from train_data_list_unweighted_inv [OF a this] Cons.IH [OF b] show ?case
    by blast
qed

lemma train_run_unweighted:
  assumes "train_nn_with_k_lstm_bits md orders data_list k N quality fix_bit_val False = Inr r"
  shows "list_all (\<lambda>lf. lf = 1) (backward_scales (t_calls r))"
proof -
  from assms have
    "train_iterations md k quality fix_bit_val False orders [0..<N] data_list
       (initial_training md k quality) = Inr r"
    by (auto simp: train_nn_with_k_lstm_bits_def split: sum.splits if_splits)
  from train_iterations_unweighted_inv [OF this] show ?thesis
    by (simp add: initial_training_def Let_def)
qed

text \<open>
  C7. In a training step on an item with a target where the encoder participates
  (\<^verbatim>\<open>k > 0 or k is None\<close>): with weighted learning the step makes one backward call on the
  encoder, with the square of the average of \<^verbatim>\<open>fy[3]\<close> and \<^verbatim>\<open>fy[4]\<close> as scale; without
  weighted learning it makes one backward call with the value of \<^verbatim>\<open>learning_factor\<close>,
  which it leaves unchanged, and in a whole run every scale passed is 1.
\<close>

theorem lstm_backward_scale:
  assumes "py_int_gt k 0 \<or> k = None" and "\<not> py_not yt"
  shows "(train_item md k quality fix_bit_val True s (author, (x_mat, fy, yt)) = Inr s' \<longrightarrow>
            backward_scales (t_calls s') =
              backward_scales (t_calls s) @ [((fy ! 3 + fy ! 4) / 2)\<^sup>2]) \<and>
         (train_item md k quality fix_bit_val False s (author, (x_mat, fy, yt)) = Inr s'' \<longrightarrow>
            backward_scales (t_calls s'') = backward_scales (t_calls s) @ [t_learning_factor s] \<and>
            t_learning_factor s'' = t_learning_factor s) \<and>
         (\<forall>orders (data_list :: 'a item list) N r.
            train_nn_with_k_lstm_bits md orders data_list k N quality fix_bit_val False = Inr r \<longrightarrow>
              list_all (\<lambda>lf. lf = 1) (backward_scales (t_calls r)))"
proof (intro conjI impI allI)
  assume "train_item md k quality fix_bit_val True s (author, (x_mat, fy, yt)) = Inr s'"
  with assms show "backward_scales (t_calls s') =
      backward_scales (t_calls s) @ [((fy ! 3 + fy ! 4) / 2)\<^sup>2]"
    by (rule train_item_scale_weighted)
next
  assume r: "train_item md k quality fix_bit_val False s (author, (x_mat, fy, yt)) = Inr s''"
  from train_item_scale_unweighted [OF assms r]
  show "backward_scales (t_calls s'') = backward_scales (t_calls s) @ [t_learning_factor s]"
    and "t_learning_factor s'' = t_learning_factor s"
    by simp_all
next
  fix orders and data_list :: "'a item list" and N r
  assume "train_nn_with_k_lstm_bits md orders data_list k N quality fix_bit_val False = Inr r"
  then show "list_all (\<lambda>lf. lf = 1) (backward_scales (t_calls r))"
    by (rule train_run_unweighted)
qed

theorem lstm_backward_scale_witness:
  "train_item counting_modules (Some 1) True None True
     (initial_training counting_modules (Some 1) True)
     (0::nat, (demo_x_mat, demo_fy, Some 1)) =
   Inr \<lparr>t_lstm = 1, t_nnet = 1, t_errors = [25], t_learning_factor = 9,
        t_calls = [LstmForward demo_x_mat, NnetForward (0 # demo_fy), NnetBackward [10],
                   LstmBackward ([0, 0, 0, 0, 0, 0, 0, 0, 0, 0, 0, 0]) 9]\<rparr> \<and>
   backward_scales [LstmForward demo_x_mat, NnetForward (0 # demo_fy), NnetBackward [10],
                   LstmBackward ([0, 0, 0, 0, 0, 0, 0, 0, 0, 0, 0, 0]) 9] = [((2 + 4) / 2)\<^sup>2]"
proof -
  have enc: "py_int_gt (Some 1) 0 \<or> Some 1 = (None :: int option)"
    by (simp add: py_int_gt_def)
  have yt: "\<not> py_not (Some 1)"
    by (simp add: py_not_def)
  have run: "train_item counting_modules (Some 1) True None True
     (initial_training counting_modules (Some 1) True)
     (0::nat, (demo_x_mat, demo_fy, Some 1)) =
   Inr \<lparr>t_lstm = 1, t_nnet = 1, t_errors = [25], t_learning_factor = 9,
        t_calls = [LstmForward demo_x_mat, NnetForward (0 # demo_fy), NnetBackward [10],
                   LstmBackward ([0, 0, 0, 0, 0, 0, 0, 0, 0, 0, 0, 0]) 9]\<rparr>"
    by (simp add: run_defs)
  from lstm_backward_scale [OF enc yt, THEN conjunct1, rule_format, OF run] run
  show ?thesis
    by (simp add: initial_training_def Let_def)
qed

section \<open>Runs that bypass the encoder\<close>

lemma train_item_bypass:
  assumes "\<not> (py_int_gt k 0 \<or> k = None)"
    and "train_item md k quality fix_bit_val weighted_learning s it = Inr s'"
  shows "t_lstm s' = t_lstm s \<and>
         list_ex is_lstm_event (t_calls s') = list_ex is_lstm_event (t_calls s)"
  using assms
  by (auto simp: train_item_def train_forward_def Let_def
      split: prod.splits sum.splits if_splits option.splits)

lemma train_data_list_bypass:
  "\<not> (py_int_gt k 0 \<or> k = None) \<Longrightarrow>
   train_data_list md k quality fix_bit_val weighted_learning s data_list = Inr s' \<Longrightarrow>
   t_lstm s' = t_lstm s \<and>
   list_ex is_lstm_event (t_calls s') = list_ex is_lstm_event (t_calls s)"
proof (induction data_list arbitrary: s)
  case Nil
  then show ?case by simp
next
  case (Cons it data_list)
  from Cons.prems(2) obtain s1 where
    a: "train_item md k quality fix_bit_val weighted_learning s it = Inr s1"
    and b: "train_data_list md k quality fix_bit_val weighted_learning s1 data_list = Inr s'"
    by (auto split: sum.splits)
  from train_item_bypass [OF Cons.prems(1) a] Cons.IH [OF Cons.prems(1) b] show ?case
    by simp
qed

lemma train_iterations_bypass:
  "\<not> (py_int_gt k 0 \<or> k = None) \<Longrightarrow>
   train_iterations md k quality fix_bit_val weighted_learning orders its data_list s = Inr s' \<Longrightarrow>
   t_lstm s' = t_lstm s \<and>
   list_ex is_lstm_event (t_calls s') = list_ex is_lstm_event (t_calls s)"
proof (induction its arbitrary: s data_list)
  case Nil
  then show ?case by simp
next
  case (Cons iteration its)
  from Cons.prems(2) obtain s1 where
    a: "train_data_list md k quality fix_bit_val weighted_learning (s\<lparr>t_errors := []\<rparr>)
          (shuffle (orders iteration) data_list) = Inr s1"
    and b: "train_iterations md k quality fix_bit_val weighted_learning orders its
          (shuffle (orders iteration) data_list) s1 = Inr s'"
    by (auto simp: Let_def split: sum.splits)
  from train_data_list_bypass [OF Cons.prems(1) a] Cons.IH [OF Cons.prems(1) b] show ?case
    by simp
qed

lemma train_without_encoder:
  assumes "\<not> (py_int_gt k 0 \<or> k = None)"
    and "train_nn_with_k_lstm_bits md orders data_list k N quality fix_bit_val weighted_learning = Inr r"
  shows "t_lstm r = lstm_initialize md (if quality then Nf_quality else Nf_existence) M \<and>
         \<not> list_ex is_lstm_event (t_calls r)"
proof -
  from assms(2) have
    "train_iterations md k quality fix_bit_val weighted_learning orders [0..<N] data_list
       (initial_training md k quality) = Inr r"
    by (auto simp: train_nn_with_k_lstm_bits_def split: sum.splits if_splits)
  from train_iterations_bypass [OF assms(1) this] show ?thesis
    by (simp add: initial_training_def Let_def)
qed

lemma train_nn_only_encoder_untouched:
  assumes "train_nn_only md draw perms orders (entries :: 'a item list) N weighted_learning = Inr r"
  shows "t_lstm r = lstm_initialize md Nf_quality M \<and> \<not> list_ex is_lstm_event (t_calls r)"
proof -
  from assms obtain data_list :: "'a item list" where
    "train_nn_with_k_lstm_bits md orders data_list (Some 0) N True None weighted_learning = Inr r"
    by (auto simp: train_nn_only_def split: sum.splits)
  moreover have "\<not> (py_int_gt (Some 0) 0 \<or> Some 0 = (None :: int option))"
    by (simp add: py_int_gt_def)
  ultimately show ?thesis
    using train_without_encoder by fastforce
qed

lemma train_item_fixed_no_forward:
  assumes "fix_bit_val \<noteq> None"
    and "train_item md k quality fix_bit_val weighted_learning s it = Inr s'"
  shows "list_ex is_lstm_forward (t_calls s') = list_ex is_lstm_forward (t_calls s)"
  using assms
  by (auto simp: train_item_def train_forward_def Let_def
      split: prod.splits sum.splits if_splits option.splits)

lemma train_item_fixed_backward:
  assumes "py_int_gt k 0 \<or> k = None" and "v \<noteq> 0"
  shows "\<exists>s'. train_item md k quality (Some (Sequence b)) False s (author, (x_mat, fy, Some v)) = Inr s' \<and>
           backward_scales (t_calls s') = backward_scales (t_calls s) @ [t_learning_factor s]"
  using assms
  by (auto simp: train_item_def train_forward_def Let_def py_not_def backward_scales_append
      split: prod.splits)

text \<open>
  C1. The claim is that a run with \<^verbatim>\<open>fix_bit_val\<close> set never calls the encoder. The run of
  one iteration with \<open>k = 1\<close> and \<^verbatim>\<open>fix_bit_val = [1]\<close> on one item with the target 1 skips
  the forward call, but line 151 tests only \<^verbatim>\<open>k > 0 or k is None\<close>: the encoder's backward
  is called with an empty gradient, and the counting encoder ends in state 1, not 0.
\<close>

theorem fix_bit_val_runs_encoder_backward:
  "train_nn_with_k_lstm_bits counting_modules (\<lambda>i. [0])
     [(0::nat, (demo_x_mat, demo_fy, Some 1))] (Some 1) 1 True (Some (Sequence [1])) False =
   Inr \<lparr>t_lstm = 1, t_nnet = 1, t_errors = [36], t_learning_factor = 1,
        t_calls = [NnetForward (1 # demo_fy), NnetBackward [12], LstmBackward [] 1]\<rparr> \<and>
   t_lstm (initial_training counting_modules (Some 1) True) = 0"
  by (simp add: run_defs)

section \<open>Evaluation against training\<close>

lemma test_forward_agrees:
  "quality \<or> \<not> py_int_gt k 0 \<Longrightarrow>
   test_forward md k quality None st xfy = train_forward md k quality None st xfy"
  by (auto simp: test_forward_def train_forward_def)

text \<open>
  C2. The claim is that the evaluation pass computes the predictor input, the prediction,
  the normalised target and the squared error as the training step does. With \<open>k = 1\<close>
  and \<^verbatim>\<open>quality=False\<close> the training step keeps the target -1 while the evaluation pass
  normalises it to 0, and the errors are 49 and 36; with \<^verbatim>\<open>fix_bit_val = 1\<close> the training
  step raises ValueError where the evaluation pass computes a prediction, and with
  \<^verbatim>\<open>fix_bit_val = [1]\<close> it is the evaluation pass that raises.
\<close>

theorem test_forward_differs:
  "train_forward counting_modules (Some 1) False None (0, 0) (demo_x_mat, demo_fy, - 1) =
     Inr (\<lparr>fw_Y = [0, 0, 0, 0, 0, 0, 0, 0, 0, 0, 0, 0], fw_nnet_input = 0 # demo_fy, fw_y = [6],
            fw_yt = - 1, fw_e = 49\<rparr>,
          (0, 0), [LstmForward demo_x_mat, NnetForward (0 # demo_fy)]) \<and>
   test_forward counting_modules (Some 1) False None (0, 0) (demo_x_mat, demo_fy, - 1) =
     Inr (\<lparr>fw_Y = [0, 0, 0, 0, 0, 0, 0, 0, 0, 0, 0, 0], fw_nnet_input = 0 # demo_fy, fw_y = [6],
            fw_yt = 0, fw_e = 36\<rparr>,
          (0, 0), [LstmForward demo_x_mat, NnetForward (0 # demo_fy)]) \<and>
   train_forward counting_modules (Some 1) True (Some (Scalar 1)) (0, 0)
       (demo_x_mat, demo_fy, - 1) = Inl ValueError \<and>
   test_forward counting_modules (Some 1) True (Some (Scalar 1)) (0, 0)
       (demo_x_mat, demo_fy, - 1) =
     Inr (\<lparr>fw_Y = [], fw_nnet_input = 1 # demo_fy, fw_y = [7], fw_yt = 0, fw_e = 49\<rparr>,
          (0, 0), [NnetForward (1 # demo_fy)]) \<and>
   train_forward counting_modules (Some 1) True (Some (Sequence [1])) (0, 0)
       (demo_x_mat, demo_fy, - 1) =
     Inr (\<lparr>fw_Y = [], fw_nnet_input = 1 # demo_fy, fw_y = [7], fw_yt = 0, fw_e = 49\<rparr>,
          (0, 0), [NnetForward (1 # demo_fy)]) \<and>
   test_forward counting_modules (Some 1) True (Some (Sequence [1])) (0, 0)
       (demo_x_mat, demo_fy, - 1) = Inl ValueError"
  by (simp add: run_defs)

section \<open>Metrics and the weights\<close>

text \<open>
  C9. The result of \<open>error_measurement\<close> does not depend on \<^verbatim>\<open>label_weights\<close>: two calls
  with the same predictions and true labels return the same precision, recall and
  fscore (or raise the same exception) for any two weight lists.
\<close>

theorem error_measurement_ignores_weights:
  "error_measurement sk y_pred y_true label_weights =
   error_measurement sk y_pred y_true label_weights'"
  by (simp add: error_measurement_def)

end
